theory Spec2Isabelle
  imports Main
begin

section \<open>Exceptions, strings and the process environment\<close>

text \<open>
  The program is one Python module, \<^verbatim>\<open>multi_agent.py\<close>. Its exceptions are values here:
  the two kinds the module raises itself (\<^verbatim>\<open>ValueError\<close> and the base class
  \<^verbatim>\<open>Exception\<close>) and every other subclass of \<^verbatim>\<open>Exception\<close>, which the search
  provider's client or the agent library may raise, with its class name and its message.
  All of them are caught by \<^verbatim>\<open>except Exception\<close>.
\<close>

datatype py_exception =
    ValueError string
  | Exception string
  | OtherError string string

text \<open>\<^verbatim>\<open>str(e)\<close> of an exception built from one message.\<close>

fun exc_str :: "py_exception \<Rightarrow> string" where
  "exc_str (ValueError m) = m"
| "exc_str (Exception m) = m"
| "exc_str (OtherError cls m) = m"

text \<open>The newline character of the module's string literals (\<^verbatim>\<open>\n\<close>).\<close>

definition nl :: char where
  "nl = CHR 0x0A"

text \<open>\<^verbatim>\<open>sep.join(xs)\<close>: the elements with the separator between neighbours.\<close>

fun str_join :: "string \<Rightarrow> string list \<Rightarrow> string" where
  "str_join sep [] = []"
| "str_join sep [x] = x"
| "str_join sep (x # y # ys) = x @ sep @ str_join sep (y # ys)"

section \<open>The search provider adapter: \<^verbatim>\<open>search_web\<close>\<close>

text \<open>
  A search response is the dictionary of the provider: an optional \<^verbatim>\<open>answer\<close>, and
  under \<^verbatim>\<open>results\<close> a list of dictionaries with the optional keys \<^verbatim>\<open>title\<close>,
  \<^verbatim>\<open>url\<close> and \<^verbatim>\<open>content\<close>. A key is absent or holds a string; an entry is a map
  from keys to strings.
\<close>

type_synonym result_entry = "string \<rightharpoonup> string"

record search_results =
  answer :: "string option"
  results :: "result_entry list option"

text \<open>The keyword arguments of \<^verbatim>\<open>tavily_client.search\<close>, one request to the provider.\<close>

record search_request =
  req_query :: string
  req_max_results :: int
  req_include_answer :: bool
  req_include_raw_content :: bool
  req_search_depth :: string

text \<open>
  The provider is outside the program: \<^verbatim>\<open>TavilyClient(api_key=k).search(...)\<close> is a
  parameter that, for a key and a request, returns a response or raises.
\<close>

type_synonym provider = "string \<Rightarrow> search_request \<Rightarrow> py_exception + search_results"

text \<open>
  The state \<^verbatim>\<open>search_web\<close> reads and changes: the process environment
  (\<^verbatim>\<open>os.environ\<close>) and the requests that were sent to the provider, oldest first.
\<close>

record world =
  environ :: "string \<rightharpoonup> string"
  network_calls :: "search_request list"

definition missing_key_message :: string where
  "missing_key_message =
     ''TAVILY_API_KEY environment variable not set. '' @
     ''Get your API key from https://app.tavily.com/home''"

text \<open>
  \<^verbatim>\<open>search_web\<close>: \<^verbatim>\<open>os.getenv\<close> runs inside the call; \<^verbatim>\<open>not api_key\<close> holds for an
  absent variable and for the empty string, and the \<^verbatim>\<open>ValueError\<close> is raised before
  the \<^verbatim>\<open>try\<close> block. Inside it, one request goes to the provider, and any exception
  is raised again as \<^verbatim>\<open>Exception\<close> with the prefixed message.
\<close>

definition search_web ::
  "provider \<Rightarrow> string \<Rightarrow> int \<Rightarrow> bool \<Rightarrow> bool \<Rightarrow> string \<Rightarrow> world
     \<Rightarrow> (py_exception + search_results) \<times> world" where
  "search_web tavily q max_results include_answer include_raw_content search_depth w =
     (case environ w ''TAVILY_API_KEY'' of
        None \<Rightarrow> (Inl (ValueError missing_key_message), w)
      | Some api_key \<Rightarrow>
          if api_key = [] then (Inl (ValueError missing_key_message), w)
          else
            (let request = \<lparr>req_query = q, req_max_results = max_results,
                            req_include_answer = include_answer,
                            req_include_raw_content = include_raw_content,
                            req_search_depth = search_depth\<rparr>;
                 w' = w\<lparr>network_calls := network_calls w @ [request]\<rparr>
             in case tavily api_key request of
                  Inr response \<Rightarrow> (Inr response, w')
                | Inl e \<Rightarrow>
                    (Inl (Exception (''Tavily API request failed: '' @ exc_str e)), w')))"

section \<open>The result formatter: \<^verbatim>\<open>format_search_results\<close>\<close>

text \<open>\<^verbatim>\<open>result.get(key, default)\<close>.\<close>

definition dict_get :: "result_entry \<Rightarrow> string \<Rightarrow> string \<Rightarrow> string" where
  "dict_get result k dflt = (case result k of None \<Rightarrow> dflt | Some v \<Rightarrow> v)"

text \<open>The f-string \<^verbatim>\<open>f"Source: {title} ({url})\nContent: {content}"\<close>.\<close>

definition formatted_content :: "string \<Rightarrow> string \<Rightarrow> string \<Rightarrow> string" where
  "formatted_content title url content =
     ''Source: '' @ title @ '' ('' @ url @ '')'' @ [nl] @ ''Content: '' @ content"

text \<open>
  The \<^verbatim>\<open>for\<close> loop over \<^verbatim>\<open>search_results["results"]\<close>, appending to
  \<^verbatim>\<open>content_list\<close>. The test \<^verbatim>\<open>"content" in result and result["content"]\<close> holds
  when the key is there and its string is not empty.
\<close>

fun format_loop :: "result_entry list \<Rightarrow> string list \<Rightarrow> string list" where
  "format_loop [] content_list = content_list"
| "format_loop (result # rest) content_list =
     (case result ''content'' of
        None \<Rightarrow> format_loop rest content_list
      | Some content \<Rightarrow>
          if content \<noteq> []
          then format_loop rest
                 (content_list @
                  [formatted_content (dict_get result ''title'' ''Unknown Title'')
                     (dict_get result ''url'' ''Unknown URL'') content])
          else format_loop rest content_list)"

definition format_search_results :: "search_results \<Rightarrow> string list" where
  "format_search_results sr =
     (let content_list =
            (case answer sr of
               None \<Rightarrow> []
             | Some a \<Rightarrow> if a \<noteq> [] then [''AI Summary: '' @ a] else [])
      in case results sr of
           None \<Rightarrow> content_list
         | Some rs \<Rightarrow> format_loop rs content_list)"

section \<open>The search capability: \<^verbatim>\<open>search_tool\<close>\<close>

text \<open>
  \<^verbatim>\<open>search_tool\<close> calls \<^verbatim>\<open>search_web(query, max_results=max_results)\<close>; the three
  arguments it leaves out take the defaults of \<^verbatim>\<open>search_web\<close>'s signature,
  \<^verbatim>\<open>include_answer=False\<close>, \<^verbatim>\<open>include_raw_content=False\<close>, \<^verbatim>\<open>search_depth="basic"\<close>.
  The \<^verbatim>\<open>except Exception\<close> branch turns every exception of the \<^verbatim>\<open>try\<close> block into
  the returned text, so the result is a string in every case. The parameter
  \<^verbatim>\<open>max_results\<close> is 3 when the caller leaves it out; here it is always given.
\<close>

definition search_tool :: "provider \<Rightarrow> string \<Rightarrow> int \<Rightarrow> world \<Rightarrow> string \<times> world" where
  "search_tool tavily q max_results w =
     (case search_web tavily q max_results False False ''basic'' w of
        (Inr sr, w') \<Rightarrow>
          (let content_list = format_search_results sr
           in (''Web Search Query: '' @ q @ [nl, nl] @
               str_join ([nl, nl] @ ''---'' @ [nl, nl]) content_list, w'))
      | (Inl e, w') \<Rightarrow> (''Error performing web search: '' @ exc_str e, w'))"

subsection \<open>The formatter in the words of the specification\<close>

text \<open>
  The formatter as the specification words it: the summary block when the answer is
  present and not empty, then one block for each entry with non-empty content, in the
  order of the response, with the two placeholders for a missing title or url.
\<close>

definition entry_has_content :: "result_entry \<Rightarrow> bool" where
  "entry_has_content r = (case r ''content'' of None \<Rightarrow> False | Some c \<Rightarrow> c \<noteq> [])"

definition spec_source_block :: "result_entry \<Rightarrow> string" where
  "spec_source_block r =
     ''Source: '' @ (case r ''title'' of None \<Rightarrow> ''Unknown Title'' | Some t \<Rightarrow> t) @
     '' ('' @ (case r ''url'' of None \<Rightarrow> ''Unknown URL'' | Some u \<Rightarrow> u) @ '')'' @
     [CHR 0x0A] @ ''Content: '' @ (case r ''content'' of None \<Rightarrow> [] | Some c \<Rightarrow> c)"

definition spec_summary_block :: "search_results \<Rightarrow> string list" where
  "spec_summary_block sr =
     (case answer sr of
        None \<Rightarrow> []
      | Some a \<Rightarrow> if a = [] then [] else [''AI Summary: '' @ a])"

definition spec_entries :: "search_results \<Rightarrow> result_entry list" where
  "spec_entries sr = (case results sr of None \<Rightarrow> [] | Some rs \<Rightarrow> rs)"

definition spec_format :: "search_results \<Rightarrow> string list" where
  "spec_format sr =
     spec_summary_block sr @ map spec_source_block (filter entry_has_content (spec_entries sr))"

section \<open>The task model and the dispatch capability: \<^verbatim>\<open>run_subagent\<close>\<close>

text \<open>
  \<^verbatim>\<open>Task\<close> and \<^verbatim>\<open>SubagentTasks\<close> are pydantic models whose fields are annotated
  \<^verbatim>\<open>str\<close>, \<^verbatim>\<open>str\<close> and \<^verbatim>\<open>List[Task]\<close>, with no further constraint and no
  validator.
\<close>

record Task =
  description :: string
  focus_area :: string

record SubagentTasks =
  tasks :: "Task list"

text \<open>
  Validation of the two models from the keyword data they are built from: each
  annotated field is required, and the annotations ask for nothing else. The data of a
  task is a map from field names to strings; the data of a batch is the list of its
  tasks' data.
\<close>

definition Task_validate :: "(string \<rightharpoonup> string) \<Rightarrow> py_exception + Task" where
  "Task_validate data =
     (case data ''description'' of
        None \<Rightarrow> Inl (OtherError ''ValidationError'' ''description: Field required'')
      | Some d \<Rightarrow>
          (case data ''focus_area'' of
             None \<Rightarrow> Inl (OtherError ''ValidationError'' ''focus_area: Field required'')
           | Some f \<Rightarrow> Inr \<lparr>description = d, focus_area = f\<rparr>))"

fun validate_all :: "(string \<rightharpoonup> string) list \<Rightarrow> py_exception + Task list" where
  "validate_all [] = Inr []"
| "validate_all (d # ds) =
     (case Task_validate d of
        Inl e \<Rightarrow> Inl e
      | Inr t \<Rightarrow> (case validate_all ds of Inl e \<Rightarrow> Inl e | Inr ts \<Rightarrow> Inr (t # ts)))"

definition SubagentTasks_validate ::
  "(string \<rightharpoonup> string) list \<Rightarrow> py_exception + SubagentTasks" where
  "SubagentTasks_validate ds =
     (case validate_all ds of Inl e \<Rightarrow> Inl e | Inr ts \<Rightarrow> Inr \<lparr>tasks = ts\<rparr>)"

text \<open>
  The worker is \<^verbatim>\<open>research_agent.run(prompt)\<close>, an agent of the library bound to a
  language model: a parameter that, for a prompt, returns a run result with its
  \<^verbatim>\<open>output\<close> (the field \<open>run_output\<close>) or raises.
\<close>

record AgentRunResult =
  run_output :: string

type_synonym worker = "string \<Rightarrow> py_exception + AgentRunResult"

text \<open>The f-string \<^verbatim>\<open>f"Research Task: {task.description}\nFocus Area: {task.focus_area}"\<close>.\<close>

definition subtask_prompt :: "Task \<Rightarrow> string" where
  "subtask_prompt task =
     ''Research Task: '' @ description task @ [nl] @ ''Focus Area: '' @ focus_area task"

text \<open>
  \<^verbatim>\<open>await asyncio.gather(*aws)\<close> with the default \<^verbatim>\<open>return_exceptions=False\<close>. The
  awaitables finish in some order, given as the list of their positions, earliest
  first. A finished awaitable that returned stores its value in the slot of its own
  position; the first one that raised makes \<^verbatim>\<open>gather\<close> raise that exception at once.
  A position outside the list names no awaitable. When the order is used up, the values
  are the slots from left to right; while a slot is empty, \<^verbatim>\<open>gather\<close> is still
  waiting, and the result is \<open>None\<close>: the call does not return.
\<close>

fun gather_steps ::
  "(py_exception + 'a) list \<Rightarrow> nat list \<Rightarrow> 'a option list \<Rightarrow> py_exception + 'a option list"
  where
  "gather_steps aws [] slots = Inr slots"
| "gather_steps aws (i # order) slots =
     (if i < length aws
      then (case aws ! i of
              Inl e \<Rightarrow> Inl e
            | Inr v \<Rightarrow> gather_steps aws order (slots[i := Some v]))
      else gather_steps aws order slots)"

definition asyncio_gather ::
  "(py_exception + 'a) list \<Rightarrow> nat list \<Rightarrow> (py_exception + 'a list) option" where
  "asyncio_gather aws order =
     (case gather_steps aws order (replicate (length aws) None) of
        Inl e \<Rightarrow> Some (Inl e)
      | Inr slots \<Rightarrow>
          (case those slots of None \<Rightarrow> None | Some rs \<Rightarrow> Some (Inr rs)))"

text \<open>
  \<^verbatim>\<open>run_subagent\<close>: the list comprehension builds one worker invocation for each task,
  in the order of \<^verbatim>\<open>tasks.tasks\<close>; \<^verbatim>\<open>gather\<close> awaits them; the function has no
  \<^verbatim>\<open>try\<close>, so an exception of \<^verbatim>\<open>gather\<close> leaves it; otherwise it returns
  \<^verbatim>\<open>[result.output for result in results]\<close>. The two \<^verbatim>\<open>print\<close> calls write to the
  standard output only and are left out.
\<close>

definition run_subagent ::
  "worker \<Rightarrow> nat list \<Rightarrow> SubagentTasks \<Rightarrow> (py_exception + string list) option" where
  "run_subagent research_agent_run order batch =
     (case asyncio_gather
             (map (\<lambda>task. research_agent_run (subtask_prompt task)) (tasks batch)) order of
        None \<Rightarrow> None
      | Some (Inl e) \<Rightarrow> Some (Inl e)
      | Some (Inr rs) \<Rightarrow> Some (Inr (map run_output rs)))"




section \<open>The lead coordinator: \<^verbatim>\<open>lead_agent.run\<close>\<close>

text \<open>
  \<^verbatim>\<open>lead_agent\<close> is an agent of the library with \<^verbatim>\<open>lead_agent_instruction\<close> as its
  instructions and \<^verbatim>\<open>run_subagent\<close> as its only tool. The module holds no loop and no
  counter of its own: the guideline "Maximum of 2 follow-up research rounds after
  initial research to prevent loops" is a line of the instruction text, and what the
  coordinator does next is the reply of the language model. The model is a parameter
  here. It sees the query and, for each earlier request, the findings that the tool
  calls of that request returned. Its reply holds any number of calls of
  \<^verbatim>\<open>run_subagent\<close>, or it is the final text, or the request fails. A reply with no call
  and no final text (an empty reply, or calls that the library sends back to the model)
  uses up a request and starts no round; when the library gives up on such replies, the
  request fails.
\<close>

datatype model_reply =
    ToolCalls "SubagentTasks list"
  | FinalOutput string
  | ModelFails py_exception

type_synonym lead_model = "string \<Rightarrow> string list list list \<Rightarrow> model_reply"

type_synonym dispatch_tool = "SubagentTasks \<Rightarrow> (py_exception + string list) option"



text \<open>
  The library runs all the tool calls of one reply, side by side. The calls that finish
  do so in the given order of their positions, the remaining ones in the order of the
  reply; a call whose round does not return never finishes. The first call to finish
  with an exception ends the run with that exception.
\<close>

fun first_failure :: "(py_exception + 'a) option list \<Rightarrow> nat list \<Rightarrow> py_exception option" where
  "first_failure outs [] = None"
| "first_failure outs (i # order) =
     (if i < length outs
      then (case outs ! i of
              Some (Inl e) \<Rightarrow> Some e
            | Some (Inr v) \<Rightarrow> first_failure outs order
            | None \<Rightarrow> first_failure outs order)
      else first_failure outs order)"

text \<open>The findings of the calls of a reply, in the order of the calls, when every call
  has returned.\<close>

fun call_findings :: "(py_exception + 'a) option list \<Rightarrow> 'a list option" where
  "call_findings [] = Some []"
| "call_findings (Some (Inr v) # outs) = map_option (\<lambda>vs. v # vs) (call_findings outs)"
| "call_findings (Some (Inl e) # outs) = None"
| "call_findings (None # outs) = None"

definition run_tool_calls ::
  "dispatch_tool \<Rightarrow> nat list \<Rightarrow> SubagentTasks list \<Rightarrow> (py_exception + string list list) option"
  where
  "run_tool_calls tool call_order calls =
     (let outs = map tool calls
      in case first_failure outs (call_order @ [0..<length calls]) of
           Some e \<Rightarrow> Some (Inl e)
         | None \<Rightarrow> map_option Inr (call_findings outs))"


definition usage_limit_exceeded :: py_exception where
  "usage_limit_exceeded =
     OtherError ''UsageLimitExceeded''
       ''The next request would exceed the request_limit of 50''"

text \<open>
  One run of the coordinator with a number of model requests left. Each request is
  answered by the model; every call of the reply starts a dispatch round, and the
  findings of the calls are added to what the model sees; an exception of a call or of
  the model ends the run, as neither the tool nor the module catches it. The exceptions
  here are failures: the signal by which a tool asks the library for a retry is not
  among them. The result is the outcome, or \<open>None\<close> when a round does not return,
  together with the number of dispatch rounds that were started.
\<close>

fun lead_agent_run ::
  "nat \<Rightarrow> lead_model \<Rightarrow> dispatch_tool \<Rightarrow> (string list list list \<Rightarrow> nat list) \<Rightarrow> string
     \<Rightarrow> string list list list \<Rightarrow> (py_exception + string) option \<times> nat" where
  "lead_agent_run 0 model tool call_order q history = (Some (Inl usage_limit_exceeded), 0)"
| "lead_agent_run (Suc n) model tool call_order q history =
     (case model q history of
        FinalOutput s \<Rightarrow> (Some (Inr s), 0)
      | ModelFails e \<Rightarrow> (Some (Inl e), 0)
      | ToolCalls calls \<Rightarrow>
          (case run_tool_calls tool (call_order history) calls of
             None \<Rightarrow> (None, length calls)
           | Some (Inl e) \<Rightarrow> (Some (Inl e), length calls)
           | Some (Inr fss) \<Rightarrow>
               (let (r, k) = lead_agent_run n model tool call_order q (history @ [fss])
                in (r, length calls + k))))"

section \<open>Concrete inputs\<close>

text \<open>A response with a summary, a full entry, an entry without content and a bare entry.\<close>

definition demo_response :: search_results where
  "demo_response =
     \<lparr>answer = Some ''A'',
      results = Some [[''title'' \<mapsto> ''X'', ''url'' \<mapsto> ''http://x'', ''content'' \<mapsto> ''C1''],
                      [''title'' \<mapsto> ''Y''],
                      [''content'' \<mapsto> ''C3'']]\<rparr>"

definition short_response :: search_results where
  "short_response =
     \<lparr>answer = None,
      results = Some [[''title'' \<mapsto> ''X'', ''url'' \<mapsto> ''http://x'', ''content'' \<mapsto> ''C1''],
                      [''content'' \<mapsto> ''C2'']]\<rparr>"

text \<open>Providers that answer every request, and one whose every request times out.\<close>

definition demo_provider :: provider where
  "demo_provider k request = Inr demo_response"

definition short_provider :: provider where
  "short_provider k request = Inr short_response"

definition failing_provider :: provider where
  "failing_provider k request = Inl (OtherError ''TimeoutError'' ''timed out'')"

definition world_with_key :: world where
  "world_with_key = \<lparr>environ = [''TAVILY_API_KEY'' \<mapsto> ''tvly-key''], network_calls = []\<rparr>"

definition world_without_key :: world where
  "world_without_key = \<lparr>environ = Map.empty, network_calls = []\<rparr>"

text \<open>A batch of two tasks; a worker that answers with its prompt; one that fails on the
  second task of the batch.\<close>

definition demo_batch :: SubagentTasks where
  "demo_batch =
     \<lparr>tasks = [\<lparr>description = ''history'', focus_area = ''dates''\<rparr>,
               \<lparr>description = ''people'', focus_area = ''founder''\<rparr>]\<rparr>"

definition echo_worker :: worker where
  "echo_worker p = Inr \<lparr>run_output = p\<rparr>"

definition failing_worker :: worker where
  "failing_worker p =
     (if p = ''Research Task: people'' @ [CHR 0x0A] @ ''Focus Area: founder''
      then Inl (OtherError ''ModelHTTPError'' ''backend unavailable'')
      else Inr \<lparr>run_output = p\<rparr>)"


definition reply_order :: "string list list list \<Rightarrow> nat list" where
  "reply_order history = []"





section \<open>Properties of the search layer\<close>

lemma format_loop_acc:
  "format_loop rs acc = acc @ map spec_source_block (filter entry_has_content rs)"
proof (induction rs arbitrary: acc)
  case Nil
  then show ?case by simp
next
  case (Cons r rs)
  show ?case
  proof (cases "r ''content''")
    case None
    then show ?thesis using Cons.IH by (simp add: entry_has_content_def)
  next
    case (Some c)
    then show ?thesis using Cons.IH
      by (simp add: entry_has_content_def spec_source_block_def formatted_content_def
            dict_get_def nl_def)
  qed
qed

text \<open>
  Claim C4. For every search response, \<^verbatim>\<open>format_search_results\<close> returns exactly the
  blocks the specification lists: the block \<^verbatim>\<open>AI Summary: ...\<close> first when, and only
  when, the answer is present and not empty, then one \<^verbatim>\<open>Source: ... Content: ...\<close>
  block for each entry whose content is present and not empty, in the order of the
  response; an entry without content gives no block, and a missing title or url is
  replaced by \<^verbatim>\<open>Unknown Title\<close> or \<^verbatim>\<open>Unknown URL\<close>. The function is total on these
  responses: no branch of it raises.
\<close>

theorem format_search_results_blocks:
  "format_search_results sr = spec_format sr"
  by (cases "answer sr"; cases "results sr")
     (simp_all add: format_search_results_def spec_format_def spec_summary_block_def
        spec_entries_def format_loop_acc)

text \<open>The formatter on a response with a summary and three entries, one without content.\<close>

theorem format_search_results_blocks_witness:
  "format_search_results demo_response =
     [''AI Summary: A'',
      ''Source: X (http://x)'' @ [CHR 0x0A] @ ''Content: C1'',
      ''Source: Unknown Title (Unknown URL)'' @ [CHR 0x0A] @ ''Content: C3'']"
  using format_search_results_blocks [of demo_response]
  by (simp add: demo_response_def spec_format_def spec_summary_block_def spec_entries_def
        entry_has_content_def spec_source_block_def)

text \<open>
  Claim C5. Whenever the environment at the time of the call holds no credential (the
  variable \<^verbatim>\<open>TAVILY_API_KEY\<close> is absent or empty), \<^verbatim>\<open>search_web\<close> fails with the
  configuration error, the \<^verbatim>\<open>ValueError\<close> that names the variable, and the world is
  unchanged: no request was sent to the provider. The environment is the one of the
  call, whatever an earlier world held.
\<close>

theorem search_web_missing_credential:
  assumes "environ w ''TAVILY_API_KEY'' = None \<or> environ w ''TAVILY_API_KEY'' = Some []"
  shows "search_web tavily q n ia irc sd w = (Inl (ValueError missing_key_message), w) \<and>
         network_calls (snd (search_web tavily q n ia irc sd w)) = network_calls w"
  using assms by (auto simp: search_web_def)

text \<open>
  A first call with the credential in place reaches the provider; the same call after the
  variable was removed from the environment fails and sends nothing more.
\<close>

theorem search_web_missing_credential_witness:
  "search_web demo_provider ''q'' 3 False False ''basic'' world_with_key =
     (Inr demo_response,
      world_with_key\<lparr>network_calls :=
        [\<lparr>req_query = ''q'', req_max_results = 3, req_include_answer = False,
          req_include_raw_content = False, req_search_depth = ''basic''\<rparr>]\<rparr>) \<and>
   search_web demo_provider ''q'' 3 False False ''basic''
       (world_with_key\<lparr>environ := (environ world_with_key)(''TAVILY_API_KEY'' := None)\<rparr>) =
     (Inl (ValueError missing_key_message),
      world_with_key\<lparr>environ := (environ world_with_key)(''TAVILY_API_KEY'' := None)\<rparr>)"
  using search_web_missing_credential[of
      "world_with_key\<lparr>environ := (environ world_with_key)(''TAVILY_API_KEY'' := None)\<rparr>"
      demo_provider "''q''" 3 False False "''basic''"]
  by (simp add: search_web_def world_with_key_def demo_provider_def)

text \<open>
  Claim C9. Whenever the credential is present and the provider call raises, whatever the
  kind of its exception, \<^verbatim>\<open>search_web\<close> fails with one kind of error, \<^verbatim>\<open>Exception\<close>
  (the provider error), whose message is \<^verbatim>\<open>Tavily API request failed: \<close> followed by
  the message of the cause; exactly one request was sent: there is no retry.
\<close>

theorem search_web_provider_failure:
  assumes "environ w ''TAVILY_API_KEY'' = Some k" and "k \<noteq> []"
    and "tavily k \<lparr>req_query = q, req_max_results = n, req_include_answer = ia,
                   req_include_raw_content = irc, req_search_depth = sd\<rparr> = Inl e"
  shows "search_web tavily q n ia irc sd w =
           (Inl (Exception (''Tavily API request failed: '' @ exc_str e)),
            w\<lparr>network_calls := network_calls w @
                 [\<lparr>req_query = q, req_max_results = n, req_include_answer = ia,
                   req_include_raw_content = irc, req_search_depth = sd\<rparr>]\<rparr>)"
  using assms by (simp add: search_web_def)

text \<open>A provider that times out: one request, one wrapped error.\<close>

theorem search_web_provider_failure_witness:
  "search_web failing_provider ''q'' 3 False False ''basic'' world_with_key =
     (Inl (Exception ''Tavily API request failed: timed out''),
      world_with_key\<lparr>network_calls :=
        [\<lparr>req_query = ''q'', req_max_results = 3, req_include_answer = False,
          req_include_raw_content = False, req_search_depth = ''basic''\<rparr>]\<rparr>)"
  using search_web_provider_failure[where w = world_with_key and k = "''tvly-key''"
      and tavily = failing_provider and q = "''q''" and n = 3 and ia = False and irc = False
      and sd = "''basic''" and e = "OtherError ''TimeoutError'' ''timed out''"]
  by (simp add: world_with_key_def failing_provider_def)

text \<open>
  Claim C2. For every query and every failure of the search layer, the missing
  credential and a failed provider call alike, \<^verbatim>\<open>search_tool\<close> does not raise: it returns
  the text \<^verbatim>\<open>Error performing web search: \<close> followed by the message of the failure.
\<close>

theorem search_tool_error_text:
  assumes "search_web tavily q n False False ''basic'' w = (Inl e, w')"
  shows "search_tool tavily q n w = (''Error performing web search: '' @ exc_str e, w')"
  using assms by (simp add: search_tool_def)

text \<open>The tool without a credential, and the tool with a provider that times out.\<close>

theorem search_tool_error_text_witness:
  "search_tool demo_provider ''q'' 3 world_without_key =
     (''Error performing web search: TAVILY_API_KEY environment variable not set. Get your API key from https://app.tavily.com/home'',
      world_without_key) \<and>
   fst (search_tool failing_provider ''q'' 3 world_with_key) =
     ''Error performing web search: Tavily API request failed: timed out''"
  using search_tool_error_text[where tavily = demo_provider and q = "''q''" and n = 3
      and w = world_without_key and w' = world_without_key
      and e = "ValueError missing_key_message"]
    search_tool_error_text[where tavily = failing_provider and q = "''q''" and n = 3
      and w = world_with_key
      and w' = "world_with_key\<lparr>network_calls :=
        [\<lparr>req_query = ''q'', req_max_results = 3, req_include_answer = False,
          req_include_raw_content = False, req_search_depth = ''basic''\<rparr>]\<rparr>"
      and e = "Exception ''Tavily API request failed: timed out''"]
  by (simp add: search_web_def world_without_key_def world_with_key_def failing_provider_def
        missing_key_message_def)

text \<open>
  Claim C10. On the success path, \<^verbatim>\<open>search_tool(query, max_results)\<close> is the
  composition: the search with the given query and \<^verbatim>\<open>max_results\<close> and with
  \<^verbatim>\<open>include_answer=False\<close>, \<^verbatim>\<open>include_raw_content=False\<close>, \<^verbatim>\<open>search_depth="basic"\<close>
  (this is the one request the provider receives); the formatter on its response; the
  blocks joined with the separator of two newlines, three dashes and two newlines, after
  the header line \<^verbatim>\<open>Web Search Query: \<close> with the query.
\<close>

theorem search_tool_success_composition:
  assumes "search_web tavily q n False False ''basic'' w = (Inr sr, w')"
  shows "search_tool tavily q n w =
           (''Web Search Query: '' @ q @ [CHR 0x0A, CHR 0x0A] @
            str_join ([CHR 0x0A, CHR 0x0A] @ ''---'' @ [CHR 0x0A, CHR 0x0A])
              (format_search_results sr), w') \<and>
         network_calls w' = network_calls w @
           [\<lparr>req_query = q, req_max_results = n, req_include_answer = False,
             req_include_raw_content = False, req_search_depth = ''basic''\<rparr>]"
  using assms
  by (auto simp: search_tool_def search_web_def nl_def Let_def
        split: option.splits if_splits sum.splits)

text \<open>The tool on a response of two entries: header, two blocks, one separator.\<close>

theorem search_tool_success_composition_witness:
  "fst (search_tool short_provider ''q'' 3 world_with_key) =
     ''Web Search Query: q'' @ [CHR 0x0A, CHR 0x0A] @
     ''Source: X (http://x)'' @ [CHR 0x0A] @ ''Content: C1'' @
     [CHR 0x0A, CHR 0x0A] @ ''---'' @ [CHR 0x0A, CHR 0x0A] @
     ''Source: Unknown Title (Unknown URL)'' @ [CHR 0x0A] @ ''Content: C2''"
  using search_tool_success_composition[where tavily = short_provider and q = "''q''"
      and n = 3 and w = world_with_key and sr = short_response
      and w' = "world_with_key\<lparr>network_calls :=
        [\<lparr>req_query = ''q'', req_max_results = 3, req_include_answer = False,
          req_include_raw_content = False, req_search_depth = ''basic''\<rparr>]\<rparr>"]
  by (simp add: search_web_def world_with_key_def short_provider_def short_response_def
        format_search_results_def formatted_content_def dict_get_def nl_def)

section \<open>Properties of the dispatch capability\<close>

lemma those_eq_Some: "those xs = Some ys \<longleftrightarrow> xs = map Some ys"
proof (induction xs arbitrary: ys)
  case Nil
  then show ?case by auto
next
  case (Cons x xs)
  show ?case
  proof (cases x)
    case None
    then show ?thesis by auto
  next
    case (Some v)
    with Cons.IH show ?thesis by (cases ys) auto
  qed
qed

text \<open>What a \<^verbatim>\<open>gather\<close> that did not raise has done to the slots.\<close>

lemma gather_steps_length:
  "gather_steps aws order slots = Inr slots' \<Longrightarrow> length slots' = length slots"
  by (induction order arbitrary: slots) (auto split: if_splits sum.splits)

lemma gather_steps_untouched:
  "gather_steps aws order slots = Inr slots' \<Longrightarrow> i \<notin> set order \<Longrightarrow>
     slots' ! i = slots ! i"
  by (induction order arbitrary: slots) (auto split: if_splits sum.splits)

lemma gather_steps_none_raised:
  "gather_steps aws order slots = Inr slots' \<Longrightarrow> i \<in> set order \<Longrightarrow> i < length aws \<Longrightarrow>
     \<exists>v. aws ! i = Inr v"
  by (induction order arbitrary: slots) (auto split: if_splits sum.splits)

lemma gather_steps_filled:
  "gather_steps aws order slots = Inr slots' \<Longrightarrow> i \<in> set order \<Longrightarrow> i < length aws \<Longrightarrow>
     i < length slots \<Longrightarrow> aws ! i = Inr v \<Longrightarrow> slots' ! i = Some v"
proof (induction order arbitrary: slots)
  case Nil
  then show ?case by simp
next
  case (Cons j order)
  show ?case
  proof (cases "j < length aws")
    case False
    with Cons.prems have "gather_steps aws order slots = Inr slots'" "i \<in> set order"
      by auto
    with Cons.IH Cons.prems show ?thesis by blast
  next
    case True
    with Cons.prems(1) obtain u where u: "aws ! j = Inr u"
      and g: "gather_steps aws order (slots[j := Some u]) = Inr slots'"
      by (auto split: sum.splits)
    show ?thesis
    proof (cases "i \<in> set order")
      case True
      with Cons.IH[OF g] Cons.prems show ?thesis by simp
    next
      case False
      with Cons.prems have "i = j" by simp
      with u Cons.prems have "u = v" by simp
      from gather_steps_untouched[OF g False] \<open>i = j\<close> \<open>u = v\<close> Cons.prems
      show ?thesis by simp
    qed
  qed
qed

lemma gather_steps_all_returned:
  "\<forall>i\<in>set order. i < length aws \<longrightarrow> (\<exists>v. aws ! i = Inr v) \<Longrightarrow>
     \<exists>slots'. gather_steps aws order slots = Inr slots'"
  by (induction order arbitrary: slots) auto

lemma gather_steps_raised:
  "gather_steps aws order slots = Inl e \<Longrightarrow> \<exists>i\<in>set order. i < length aws \<and> aws ! i = Inl e"
  by (induction order arbitrary: slots) (auto split: if_splits sum.splits)

lemma gather_steps_no_awaitables: "gather_steps [] order slots = Inr slots"
  by (induction order) simp_all

text \<open>\<^verbatim>\<open>gather\<close> returns exactly when every awaitable has finished and none has raised.\<close>

lemma asyncio_gather_returns_iff:
  "asyncio_gather aws order = Some (Inr rs) \<longleftrightarrow>
     {0..<length aws} \<subseteq> set order \<and> aws = map Inr rs"
proof
  assume "asyncio_gather aws order = Some (Inr rs)"
  then have g: "gather_steps aws order (replicate (length aws) None) = Inr (map Some rs)"
    by (auto simp: asyncio_gather_def those_eq_Some split: sum.splits option.splits)
  from gather_steps_length[OF g] have len: "length rs = length aws" by simp
  have in_order: "i \<in> set order" if "i < length aws" for i
  proof (rule ccontr)
    assume "i \<notin> set order"
    from gather_steps_untouched[OF g this] that have "map Some rs ! i = None" by simp
    with that len show False by simp
  qed
  have "aws ! i = map Inr rs ! i" if "i < length aws" for i
  proof -
    from gather_steps_none_raised[OF g in_order[OF that] that]
    obtain v where v: "aws ! i = Inr v" by blast
    from gather_steps_filled[OF g in_order[OF that] that _ v] that
    have "map Some rs ! i = Some v" by simp
    with v that len show ?thesis by simp
  qed
  with len have "aws = map Inr rs" by (intro nth_equalityI) simp_all
  with in_order show "{0..<length aws} \<subseteq> set order \<and> aws = map Inr rs" by auto
next
  assume a: "{0..<length aws} \<subseteq> set order \<and> aws = map Inr rs"
  then have "\<forall>i\<in>set order. i < length aws \<longrightarrow> (\<exists>v. aws ! i = Inr v)" by auto
  from gather_steps_all_returned[OF this]
  obtain slots' where g: "gather_steps aws order (replicate (length aws) None) = Inr slots'"
    by blast
  have "slots' = map Some rs"
  proof (rule nth_equalityI)
    show "length slots' = length (map Some rs)"
      using gather_steps_length[OF g] a by simp
  next
    fix i assume "i < length slots'"
    with gather_steps_length[OF g] have i: "i < length aws" by simp
    with a have io: "i \<in> set order" and v: "aws ! i = Inr (rs ! i)" by auto
    from gather_steps_filled[OF g io i _ v] i have "slots' ! i = Some (rs ! i)" by simp
    with a i show "slots' ! i = map Some rs ! i" by simp
  qed
  with g show "asyncio_gather aws order = Some (Inr rs)"
    by (simp add: asyncio_gather_def those_eq_Some[THEN iffD2])
qed

text \<open>\<^verbatim>\<open>gather\<close> raises as soon as one awaitable that finishes has raised.\<close>

lemma asyncio_gather_raises:
  assumes "i < length aws" and "i \<in> set order" and "aws ! i = Inl e"
  shows "\<exists>e'. asyncio_gather aws order = Some (Inl e') \<and>
           (\<exists>j<length aws. j \<in> set order \<and> aws ! j = Inl e')"
proof (cases "gather_steps aws order (replicate (length aws) None)")
  case (Inl e')
  from gather_steps_raised[OF Inl] Inl show ?thesis
    by (auto simp: asyncio_gather_def)
next
  case (Inr slots')
  from gather_steps_none_raised[OF Inr assms(2) assms(1)] assms(3) show ?thesis by simp
qed

lemma run_subagent_empty: "run_subagent run order \<lparr>tasks = []\<rparr> = Some (Inr [])"
  by (simp add: run_subagent_def asyncio_gather_def gather_steps_no_awaitables)

text \<open>
  Claim C1. For every batch of N tasks, every worker and every order in which the
  invocations finish: \<^verbatim>\<open>run_subagent\<close> returns a list of findings exactly when every
  invocation has finished and returned, and the list it returns has N findings, the one
  at position i being the output of the invocation built from the task at position i.
  The order of completion appears only in the condition that every position is in it.
\<close>

theorem run_subagent_positional:
  "run_subagent run order batch = Some (Inr fs) \<longleftrightarrow>
     {0..<length (tasks batch)} \<subseteq> set order \<and>
     length fs = length (tasks batch) \<and>
     (\<forall>i<length (tasks batch).
        run (subtask_prompt (tasks batch ! i)) = Inr \<lparr>run_output = fs ! i\<rparr>)"
proof -
  let ?aws = "map (\<lambda>task. run (subtask_prompt task)) (tasks batch)"
  have "run_subagent run order batch = Some (Inr fs) \<longleftrightarrow>
          (\<exists>rs. asyncio_gather ?aws order = Some (Inr rs) \<and> fs = map run_output rs)"
    by (auto simp: run_subagent_def split: option.splits sum.splits)
  also have "\<dots> \<longleftrightarrow> (\<exists>rs. {0..<length (tasks batch)} \<subseteq> set order \<and> ?aws = map Inr rs \<and>
                          fs = map run_output rs)"
    by (simp add: asyncio_gather_returns_iff)
  also have "\<dots> \<longleftrightarrow> {0..<length (tasks batch)} \<subseteq> set order \<and>
                     ?aws = map (\<lambda>f. Inr \<lparr>run_output = f\<rparr>) fs"
  proof -
    have "(\<exists>rs. ?aws = map Inr rs \<and> fs = map run_output rs) \<longleftrightarrow>
            ?aws = map (\<lambda>f. Inr \<lparr>run_output = f\<rparr>) fs"
    proof
      assume "\<exists>rs. ?aws = map Inr rs \<and> fs = map run_output rs"
      then obtain rs where rs: "?aws = map Inr rs" "fs = map run_output rs" by blast
      have "map (\<lambda>f. Inr \<lparr>run_output = f\<rparr>) fs = map Inr rs"
        unfolding rs(2) by (simp add: comp_def)
      with rs show "?aws = map (\<lambda>f. Inr \<lparr>run_output = f\<rparr>) fs" by simp
    next
      assume "?aws = map (\<lambda>f. Inr \<lparr>run_output = f\<rparr>) fs"
      then have "?aws = map Inr (map (\<lambda>f. \<lparr>run_output = f\<rparr>) fs) \<and>
                 fs = map run_output (map (\<lambda>f. \<lparr>run_output = f\<rparr>) fs)"
        by (simp add: comp_def)
      then show "\<exists>rs. ?aws = map Inr rs \<and> fs = map run_output rs" by blast
    qed
    then show ?thesis by blast
  qed
  also have "?aws = map (\<lambda>f. Inr \<lparr>run_output = f\<rparr>) fs \<longleftrightarrow>
               length fs = length (tasks batch) \<and>
               (\<forall>i<length (tasks batch).
                  run (subtask_prompt (tasks batch ! i)) = Inr \<lparr>run_output = fs ! i\<rparr>)"
    by (auto simp: list_eq_iff_nth_eq)
  finally show ?thesis .
qed

text \<open>Two tasks whose invocations finish in reverse order: the findings keep the order
  of the batch.\<close>

theorem run_subagent_positional_witness:
  "run_subagent echo_worker [1, 0] demo_batch =
     Some (Inr [''Research Task: history'' @ [CHR 0x0A] @ ''Focus Area: dates'',
                ''Research Task: people'' @ [CHR 0x0A] @ ''Focus Area: founder''])"
  using run_subagent_positional[of echo_worker "[1, 0]" demo_batch
      "[''Research Task: history'' @ [CHR 0x0A] @ ''Focus Area: dates'',
        ''Research Task: people'' @ [CHR 0x0A] @ ''Focus Area: founder'']"]
  by (simp add: demo_batch_def echo_worker_def subtask_prompt_def nl_def less_Suc_eq
        all_conj_distrib atLeastLessThanSuc)

lemma first_failure_single:
  "first_failure [Some (Inl e)] (order @ [0]) = Some e"
  by (induction order) simp_all

lemma run_tool_calls_single_failure:
  "tool batch = Some (Inl e) \<Longrightarrow> run_tool_calls tool order [batch] = Some (Inl e)"
  by (simp add: run_tool_calls_def first_failure_single)

text \<open>
  Claim C6. In every dispatch round, if one worker invocation fails, the whole call of
  \<^verbatim>\<open>run_subagent\<close> fails: it raises the exception of a failed invocation (the first to
  finish) and returns no findings, partial or other; and a coordinator run whose model
  has called the tool with this batch ends with that exception, since neither the tool
  nor the module catches it.
\<close>

theorem run_subagent_failure_propagates:
  assumes "i < length (tasks batch)" and "i \<in> set order"
    and "run (subtask_prompt (tasks batch ! i)) = Inl e"
  shows "\<exists>e'. run_subagent run order batch = Some (Inl e') \<and>
           (\<exists>j<length (tasks batch). j \<in> set order \<and>
              run (subtask_prompt (tasks batch ! j)) = Inl e') \<and>
           (\<forall>model call_order q history n. model q history = ToolCalls [batch] \<longrightarrow>
              lead_agent_run (Suc n) model (run_subagent run order) call_order q history =
                (Some (Inl e'), 1))"
proof -
  let ?aws = "map (\<lambda>task. run (subtask_prompt task)) (tasks batch)"
  from assms have "i < length ?aws" "?aws ! i = Inl e" by simp_all
  from asyncio_gather_raises[OF this(1) assms(2) this(2)]
  obtain e' j where "asyncio_gather ?aws order = Some (Inl e')"
    and "j < length ?aws" "j \<in> set order" "?aws ! j = Inl e'" by blast
  then have r: "run_subagent run order batch = Some (Inl e')"
    and j: "j < length (tasks batch)" "j \<in> set order"
      "run (subtask_prompt (tasks batch ! j)) = Inl e'"
    by (simp_all add: run_subagent_def)
  have "lead_agent_run (Suc n) model (run_subagent run order) call_order q history =
          (Some (Inl e'), 1)"
    if "model q history = ToolCalls [batch]" for model call_order q history n
    using that run_tool_calls_single_failure[where tool = "run_subagent run order"
        and batch = batch and e = e' and order = "call_order history"] r
    by simp
  with r j show ?thesis by blast
qed

text \<open>The second of two workers fails: the round raises its exception and so does the
  coordinator run that dispatched the round.\<close>

theorem run_subagent_failure_propagates_witness:
  "run_subagent failing_worker [1, 0] demo_batch =
     Some (Inl (OtherError ''ModelHTTPError'' ''backend unavailable'')) \<and>
   lead_agent_run 1 (\<lambda>q history. ToolCalls [demo_batch])
       (run_subagent failing_worker [1, 0]) reply_order ''q'' [] =
     (Some (Inl (OtherError ''ModelHTTPError'' ''backend unavailable'')), 1)"
proof -
  have "(1::nat) < length (tasks demo_batch)" "(1::nat) \<in> set [1, 0]"
    "failing_worker (subtask_prompt (tasks demo_batch ! 1)) =
       Inl (OtherError ''ModelHTTPError'' ''backend unavailable'')"
    by (simp_all add: demo_batch_def failing_worker_def subtask_prompt_def nl_def)
  from run_subagent_failure_propagates[where run = failing_worker and batch = demo_batch
      and order = "[1, 0]" and i = 1, OF this]
  obtain e' where r: "run_subagent failing_worker [1, 0] demo_batch = Some (Inl e')"
    and j: "\<exists>j<length (tasks demo_batch). j \<in> set [1, 0] \<and>
              failing_worker (subtask_prompt (tasks demo_batch ! j)) = Inl e'"
    and l: "\<forall>model call_order q history n. model q history = ToolCalls [demo_batch] \<longrightarrow>
              lead_agent_run (Suc n) model (run_subagent failing_worker [1, 0]) call_order q
                history = (Some (Inl e'), 1)"
    by blast
  from j have "e' = OtherError ''ModelHTTPError'' ''backend unavailable''"
    by (auto simp: failing_worker_def split: if_splits)
  moreover from l have "lead_agent_run (Suc 0) (\<lambda>q history. ToolCalls [demo_batch])
      (run_subagent failing_worker [1, 0]) reply_order ''q'' [] = (Some (Inl e'), 1)"
    by simp
  ultimately show ?thesis using r by simp
qed

text \<open>
  Claim C8, as the specification states it, fails on the module: a task whose
  description and focus area are both the empty string is a valid \<^verbatim>\<open>Task\<close>, the empty
  list is a valid \<^verbatim>\<open>SubagentTasks\<close>, and \<^verbatim>\<open>run_subagent\<close> on the empty batch is not
  rejected: it returns the empty list of findings.
\<close>

theorem empty_task_and_batch_accepted:
  "Task_validate [''description'' \<mapsto> [], ''focus_area'' \<mapsto> []] =
     Inr \<lparr>description = [], focus_area = []\<rparr> \<and>
   SubagentTasks_validate [] = Inr \<lparr>tasks = []\<rparr> \<and>
   run_subagent echo_worker [] \<lparr>tasks = []\<rparr> = Some (Inr [])"
  by (simp add: Task_validate_def SubagentTasks_validate_def run_subagent_def
        asyncio_gather_def)

text \<open>
  Claim C8, amended. Building a \<^verbatim>\<open>Task\<close> requires the fields \<^verbatim>\<open>description\<close> and
  \<^verbatim>\<open>focus_area\<close> to be present as strings, and any strings will do, the empty one
  included; the empty batch is accepted, and \<^verbatim>\<open>run_subagent\<close> on it returns the empty
  list of findings for every worker, so no worker takes part.
\<close>

theorem task_fields_required_batch_may_be_empty:
  "(Task_validate data = Inr t \<longleftrightarrow>
      data ''description'' = Some (description t) \<and>
      data ''focus_area'' = Some (focus_area t)) \<and>
   SubagentTasks_validate [] = Inr \<lparr>tasks = []\<rparr> \<and>
   run_subagent run order \<lparr>tasks = []\<rparr> = Some (Inr [])"
  by (cases t)
     (auto simp: Task_validate_def SubagentTasks_validate_def run_subagent_empty
        split: option.splits)

text \<open>A task with an empty description, and the empty batch with a worker that would
  fail.\<close>

theorem task_fields_required_batch_may_be_empty_witness:
  "Task_validate [''description'' \<mapsto> [], ''focus_area'' \<mapsto> ''x''] =
     Inr \<lparr>description = [], focus_area = ''x''\<rparr> \<and>
   run_subagent failing_worker [0] \<lparr>tasks = []\<rparr> = Some (Inr [])"
  using task_fields_required_batch_may_be_empty[
      where data = "[''description'' \<mapsto> [], ''focus_area'' \<mapsto> ''x'']"
      and t = "\<lparr>description = [], focus_area = ''x''\<rparr>" and run = failing_worker
      and order = "[0]"]
  by simp









section \<open>Properties of the coordinator run\<close>


















end
